theory Spec2Isabelle
  imports Complex_Main "HOL-Library.Sublist"
begin

section \<open>The healthcare appointment demo: \<^verbatim>\<open>healthcare_appointments.py\<close>\<close>

text \<open>
  The module builds five agents around one model handle. What it defines itself, and
  what is embedded here, is: the pydantic data classes, the three module-level lookup
  tables, the four tool functions and the dynamic system prompt. Python strings are
  \<^typ>\<open>string\<close>; a table is a map from its keys, and an entry of a table is the list of
  its items; every \<^verbatim>\<open>raise\<close> is a value of the error type below. The agents themselves
  (the model calls and the retry loop of \<^verbatim>\<open>pydantic_ai\<close>) are a dependency and are not
  embedded.
\<close>

subsection \<open>Data classes\<close>

text \<open>\<^verbatim>\<open>datetime.date\<close>, as the three integers it is built from.\<close>

record py_date =
  year :: int
  month :: int
  day :: int

text \<open>\<^verbatim>\<open>class Appointment(BaseModel)\<close>\<close>

record Appointment =
  appointment_id :: string
  date :: py_date
  time :: string
  doctor_name :: string
  department :: string
  status :: string

text \<open>\<^verbatim>\<open>class PatientDetails(BaseModel)\<close>; the two \<^verbatim>\<open>Optional\<close> fields default to
  \<^verbatim>\<open>None\<close>.\<close>

record PatientDetails =
  patient_id :: string
  name :: string
  email :: string
  phone :: string
  medical_record_number :: string
  appointments :: "Appointment list option"
  insurance_provider :: "string option"

text \<open>\<^verbatim>\<open>RunContext[PatientDetails]\<close>: the tools and the prompt function read only
  \<^verbatim>\<open>ctx.deps\<close>.\<close>

record 'd RunContext =
  deps :: 'd

text \<open>\<^verbatim>\<open>class HealthcareResponseModel(BaseModel)\<close>. The allowed urgency labels occur
  in the source only inside the description of \<^verbatim>\<open>urgency_level\<close>, whose declared type
  is \<^verbatim>\<open>str\<close>.\<close>

record HealthcareResponseModel =
  response :: string
  urgency_level :: string
  appointment_needed :: bool
  follow_up_required :: bool
  department_referral :: "string option"

definition urgency_labels :: "string set" where
  "urgency_labels = {''routine'', ''urgent'', ''emergency''}"

subsection \<open>Errors\<close>

text \<open>\<^verbatim>\<open>ModelRetry(message)\<close> is the retryable signal a tool raises; \<^verbatim>\<open>KeyError\<close> is
  what \<^verbatim>\<open>d[k]\<close> raises on a missing key.\<close>

datatype error = ModelRetry string | KeyError string

subsection \<open>String helpers of Python\<close>

text \<open>\<^verbatim>\<open>sep.join(xs)\<close>\<close>

fun join :: "string \<Rightarrow> string list \<Rightarrow> string" where
  "join sep [] = []"
| "join sep [x] = x"
| "join sep (x # y # ys) = x @ sep @ join sep (y # ys)"

text \<open>How an f-string renders the result of \<^verbatim>\<open>d.get(k)\<close>: the string itself, or
  \<^verbatim>\<open>None\<close> for a missing key.\<close>

definition fmt :: "string option \<Rightarrow> string" where
  "fmt v = (case v of None \<Rightarrow> ''None'' | Some s \<Rightarrow> s)"

subsection \<open>The module-level tables\<close>

text \<open>An inner dictionary is the list of its items, in the order the literal gives them;
  \<^verbatim>\<open>d.get(k)\<close> looks the key up and gives \<^verbatim>\<open>None\<close> when it is missing.\<close>

type_synonym pydict = "(string \<times> string) list"

definition dict_get :: "pydict \<Rightarrow> string \<Rightarrow> string option" where
  "dict_get d k = map_of d k"

definition appointment_db :: "string \<rightharpoonup> pydict" where
  "appointment_db = map_of
     [(''A001'',
         [(''date'', ''2024-12-15''), (''time'', ''10:00 AM''), (''doctor'', ''Dr. Smith''),
          (''department'', ''Cardiology''), (''status'', ''scheduled'')]),
      (''A002'',
         [(''date'', ''2024-12-20''), (''time'', ''2:30 PM''), (''doctor'', ''Dr. Johnson''),
          (''department'', ''Dermatology''), (''status'', ''confirmed'')])]"

definition doctor_availability :: "string \<rightharpoonup> string list" where
  "doctor_availability = map_of
     [(''Dr. Smith'', [''Monday'', ''Wednesday'', ''Friday'']),
      (''Dr. Johnson'', [''Tuesday'', ''Thursday'']),
      (''Dr. Williams'', [''Monday'', ''Tuesday'', ''Wednesday'', ''Thursday'', ''Friday''])]"

definition comprehensive_appointment_db :: "string \<rightharpoonup> pydict" where
  "comprehensive_appointment_db = map_of
     [(''APT-12345'',
         [(''date'', ''2024-12-15''), (''time'', ''10:00 AM''), (''doctor'', ''Dr. Smith''),
          (''department'', ''Cardiology''), (''status'', ''scheduled''),
          (''patient_id'', ''P001'')]),
      (''APT-67890'',
         [(''date'', ''2024-12-20''), (''time'', ''2:30 PM''), (''doctor'', ''Dr. Johnson''),
          (''department'', ''Dermatology''), (''status'', ''confirmed''),
          (''patient_id'', ''P002'')])]"

text \<open>The globals a tool can reach, as one store. \<open>module_tables\<close> is the store the
  module creates when it is loaded.\<close>

record tables =
  tbl_appointment_db :: "string \<rightharpoonup> pydict"
  tbl_doctor_availability :: "string \<rightharpoonup> string list"
  tbl_comprehensive_appointment_db :: "string \<rightharpoonup> pydict"

definition module_tables :: tables where
  "module_tables =
     \<lparr>tbl_appointment_db = appointment_db,
      tbl_doctor_availability = doctor_availability,
      tbl_comprehensive_appointment_db = comprehensive_appointment_db\<rparr>"

subsection \<open>The fixtures\<close>

definition patient :: PatientDetails where
  "patient =
     \<lparr>patient_id = ''P001'', name = ''Jane Doe'', email = ''jane.doe@email.com'',
      phone = ''555-0123'', medical_record_number = ''MRN-789456'',
      appointments = Some
        [\<lparr>appointment_id = ''A001'', date = \<lparr>year = 2024, month = 12, day = 15\<rparr>,
          time = ''10:00 AM'', doctor_name = ''Dr. Smith'', department = ''Cardiology'',
          status = ''scheduled''\<rparr>],
      insurance_provider = Some ''Blue Cross Blue Shield''\<rparr>"

definition patient_validation :: PatientDetails where
  "patient_validation =
     \<lparr>patient_id = ''P001'', name = ''Jane Doe'', email = ''jane.doe@email.com'',
      phone = ''555-0123'', medical_record_number = ''MRN-789456'',
      appointments = None, insurance_provider = None\<rparr>"

subsection \<open>The tools of agent4\<close>

text \<open>\<^verbatim>\<open>get_appointment_details(ctx)\<close>: \<^verbatim>\<open>if ctx.deps.appointments:\<close> is false for
  \<^verbatim>\<open>None\<close> and for the empty list; \<^verbatim>\<open>appointment_db.get(id, {})\<close> falls back to the
  empty dictionary, whose \<^verbatim>\<open>get\<close> gives \<^verbatim>\<open>None\<close> for every key.\<close>

definition details_text :: "string \<Rightarrow> pydict \<Rightarrow> string" where
  "details_text appt_id details =
     ''Appointment '' @ appt_id @ '': '' @ fmt (dict_get details ''date'')
       @ '' at '' @ fmt (dict_get details ''time'') @ '' with '' @ fmt (dict_get details ''doctor'')
       @ '' in '' @ fmt (dict_get details ''department'')"

definition get_appointment_details :: "tables \<Rightarrow> PatientDetails RunContext \<Rightarrow> string" where
  "get_appointment_details T ctx =
     (case appointments (deps ctx) of
        Some (appointment # rest) \<Rightarrow>
          (let details = (case tbl_appointment_db T (appointment_id appointment) of
                            None \<Rightarrow> [] | Some d \<Rightarrow> d)
           in details_text (appointment_id appointment) details)
      | _ \<Rightarrow> ''No appointments found'')"

text \<open>\<^verbatim>\<open>check_doctor_availability(doctor_name)\<close>: \<^verbatim>\<open>.get(doctor_name, [])\<close>, then the
  truth test of the list.\<close>

definition check_doctor_availability :: "tables \<Rightarrow> string \<Rightarrow> string" where
  "check_doctor_availability T doctor =
     (let available_days = (case tbl_doctor_availability T doctor of
                              None \<Rightarrow> [] | Some ds \<Rightarrow> ds)
      in if available_days \<noteq> []
         then doctor @ '' is available on: '' @ join '', '' available_days
         else ''No availability information found for '' @ doctor)"

subsection \<open>The tools of agent5\<close>

text \<open>\<^verbatim>\<open>appointment_info[k]\<close>\<close>

definition getitem :: "pydict \<Rightarrow> string \<Rightarrow> error + string" where
  "getitem d k = (case map_of d k of None \<Rightarrow> Inl (KeyError k) | Some v \<Rightarrow> Inr v)"

definition status_hint :: "string \<Rightarrow> string" where
  "status_hint appt_id =
     ''No appointment found for ID '' @ appt_id @ ''. ''
       @ ''Please ensure the appointment ID is in the correct format (APT-XXXXX) ''
       @ ''and verify with the patient. Self-correct if needed and try again.''"

text \<open>The f-string \<^verbatim>\<open>get_appointment_status\<close> returns.\<close>

definition status_text :: "string \<Rightarrow> string \<Rightarrow> string \<Rightarrow> string \<Rightarrow> string \<Rightarrow> string \<Rightarrow> string" where
  "status_text appt_id d t doc dep st =
     ''Appointment '' @ appt_id @ '': '' @ d @ '' at '' @ t @ '' with '' @ doc
       @ '' ('' @ dep @ '') - Status: '' @ st"

text \<open>\<^verbatim>\<open>get_appointment_status(appointment_id)\<close>: the five subscripts are evaluated left
  to right, so the first missing key is the one reported.\<close>

definition get_appointment_status :: "tables \<Rightarrow> string \<Rightarrow> error + string" where
  "get_appointment_status T appt_id =
     (case tbl_comprehensive_appointment_db T appt_id of
        None \<Rightarrow> Inl (ModelRetry (status_hint appt_id))
      | Some appointment_info \<Rightarrow>
          (case getitem appointment_info ''date'' of Inl e \<Rightarrow> Inl e | Inr d \<Rightarrow>
          (case getitem appointment_info ''time'' of Inl e \<Rightarrow> Inl e | Inr t \<Rightarrow>
          (case getitem appointment_info ''doctor'' of Inl e \<Rightarrow> Inl e | Inr doc \<Rightarrow>
          (case getitem appointment_info ''department'' of Inl e \<Rightarrow> Inl e | Inr dep \<Rightarrow>
          (case getitem appointment_info ''status'' of Inl e \<Rightarrow> Inl e | Inr st \<Rightarrow>
             Inr (status_text appt_id d t doc dep st)))))))"

definition not_found_hint :: "string \<Rightarrow> string" where
  "not_found_hint appt_id =
     ''Appointment '' @ appt_id
       @ '' not found. Please verify the appointment ID format.''"

definition confidentiality_hint :: "string \<Rightarrow> string \<Rightarrow> string" where
  "confidentiality_hint appt_id pat_id =
     ''Appointment '' @ appt_id @ '' does not belong to patient '' @ pat_id @ ''. ''
       @ ''This is a HIPAA violation. Please verify patient identity before providing appointment information.''"

text \<open>\<^verbatim>\<open>validate_patient_appointment(appointment_id, patient_id)\<close>:
  \<^verbatim>\<open>appointment_info.get('patient_id') != patient_id\<close> also holds when the entry has no
  owner, since \<^verbatim>\<open>None\<close> differs from every string.\<close>

definition validate_patient_appointment :: "tables \<Rightarrow> string \<Rightarrow> string \<Rightarrow> error + string" where
  "validate_patient_appointment T appt_id pat_id =
     (case tbl_comprehensive_appointment_db T appt_id of
        None \<Rightarrow> Inl (ModelRetry (not_found_hint appt_id))
      | Some appointment_info \<Rightarrow>
          if dict_get appointment_info ''patient_id'' \<noteq> Some pat_id
          then Inl (ModelRetry (confidentiality_hint appt_id pat_id))
          else Inr (''Appointment '' @ appt_id @ '' verified for patient '' @ pat_id))"

subsection \<open>The dynamic system prompt\<close>

text \<open>Modelled from the spec: \<^verbatim>\<open>to_markdown\<close> is imported from \<^verbatim>\<open>utils/markdown.py\<close>, a
  file of the repository that is not among the sources. The spec describes it as a helper
  that "accepts an arbitrary structured object and returns a deterministic text rendering",
  and says nothing of the rendering itself, so it is a parameter: any function from the
  record to a string.\<close>

type_synonym markdown_renderer = "PatientDetails \<Rightarrow> string"

text \<open>\<^verbatim>\<open>add_patient_context(ctx)\<close>, registered with the same body on agent3 and agent4.\<close>

definition add_patient_context :: "markdown_renderer \<Rightarrow> PatientDetails RunContext \<Rightarrow> string" where
  "add_patient_context to_markdown ctx = ''Patient information: '' @ to_markdown (deps ctx)"

subsection \<open>A call made by the host\<close>

text \<open>
  During a run the host holds the dependency object it was given and the module's tables.
  It calls the prompt function and the tools; a function that takes \<^verbatim>\<open>ctx\<close> receives the
  run's dependency object. None of the five functions assigns to a table, to one of its
  entries or to a field of the record, so a call hands the store on as it found it. A
  raised error is the \<open>Inl\<close> result of the call, a returned string the \<open>Inr\<close> one.
\<close>

record run_state =
  globals :: tables
  run_deps :: PatientDetails

datatype call =
    AddPatientContext
  | GetAppointmentDetails
  | CheckDoctorAvailability string
  | GetAppointmentStatus string
  | ValidatePatientAppointment string string

fun invoke :: "markdown_renderer \<Rightarrow> run_state \<Rightarrow> call \<Rightarrow> (error + string) \<times> run_state" where
  "invoke md s AddPatientContext =
     (Inr (add_patient_context md \<lparr>deps = run_deps s\<rparr>), s)"
| "invoke md s GetAppointmentDetails =
     (Inr (get_appointment_details (globals s) \<lparr>deps = run_deps s\<rparr>), s)"
| "invoke md s (CheckDoctorAvailability doctor) =
     (Inr (check_doctor_availability (globals s) doctor), s)"
| "invoke md s (GetAppointmentStatus appt_id) =
     (get_appointment_status (globals s) appt_id, s)"
| "invoke md s (ValidatePatientAppointment appt_id pat_id) =
     (validate_patient_appointment (globals s) appt_id pat_id, s)"

subsection \<open>Validation of a structured reply\<close>

text \<open>What the model sends back is a JSON object. A number written without fraction and
  exponent is an integer; any other number is a float, given here by the value of the
  double it is read as.\<close>

datatype json =
    JNull
  | JBool bool
  | JInt int
  | JFloat rat
  | JStr string
  | JArr "json list"
  | JObj "(string \<times> json) list"

datatype validation_error =
    Missing string
  | StringType string
  | BoolType string
  | BoolParsing string

text \<open>
  The class body of \<^verbatim>\<open>HealthcareResponseModel\<close> fixes the fields and the type each one
  declares; the check that accepts or rejects a candidate is pydantic's, a dependency. The
  class sets no strict configuration, so the check is pydantic's default, lax one:
  \<^item> a \<^verbatim>\<open>str\<close> field takes a JSON string and nothing else;
  \<^item> a \<^verbatim>\<open>bool\<close> field takes \<^verbatim>\<open>true\<close> and \<^verbatim>\<open>false\<close>, the numbers 0 and 1, and the strings
    \<^verbatim>\<open>0 f n no off false\<close> and \<^verbatim>\<open>1 t y on yes true\<close> in any letter case;
  \<^item> \<^verbatim>\<open>Optional[str]\<close> without a default takes a string or \<^verbatim>\<open>null\<close>, and the key has to be
    there;
  \<^item> keys the class does not declare are ignored.
  No field declares an enumeration or a validator.
\<close>

definition ascii_lower :: "char \<Rightarrow> char" where
  "ascii_lower ch =
     (let n = (of_char ch :: nat) in if 65 \<le> n \<and> n \<le> 90 then char_of (n + 32) else ch)"

definition str_as_bool :: "string \<Rightarrow> bool option" where
  "str_as_bool v =
     (let l = map ascii_lower v in
      if l \<in> set [''0'', ''f'', ''n'', ''no'', ''off'', ''false''] then Some False
      else if l \<in> set [''1'', ''t'', ''y'', ''on'', ''yes'', ''true''] then Some True
      else None)"

definition str_field :: "(string \<rightharpoonup> json) \<Rightarrow> string \<Rightarrow> validation_error + string" where
  "str_field c k =
     (case c k of
        None \<Rightarrow> Inl (Missing k)
      | Some (JStr v) \<Rightarrow> Inr v
      | Some _ \<Rightarrow> Inl (StringType k))"

definition bool_field :: "(string \<rightharpoonup> json) \<Rightarrow> string \<Rightarrow> validation_error + bool" where
  "bool_field c k =
     (case c k of
        None \<Rightarrow> Inl (Missing k)
      | Some (JBool b) \<Rightarrow> Inr b
      | Some (JInt i) \<Rightarrow>
          if i = 0 then Inr False else if i = 1 then Inr True else Inl (BoolParsing k)
      | Some (JFloat x) \<Rightarrow>
          if x = 0 then Inr False else if x = 1 then Inr True else Inl (BoolParsing k)
      | Some (JStr v) \<Rightarrow>
          (case str_as_bool v of None \<Rightarrow> Inl (BoolParsing k) | Some b \<Rightarrow> Inr b)
      | Some _ \<Rightarrow> Inl (BoolType k))"

definition optional_str_field :: "(string \<rightharpoonup> json) \<Rightarrow> string \<Rightarrow> validation_error + string option" where
  "optional_str_field c k =
     (case c k of
        None \<Rightarrow> Inl (Missing k)
      | Some JNull \<Rightarrow> Inr None
      | Some (JStr v) \<Rightarrow> Inr (Some v)
      | Some _ \<Rightarrow> Inl (StringType k))"

definition model_validate :: "(string \<rightharpoonup> json) \<Rightarrow> validation_error + HealthcareResponseModel" where
  "model_validate c =
     (case str_field c ''response'' of Inl e \<Rightarrow> Inl e | Inr r \<Rightarrow>
     (case str_field c ''urgency_level'' of Inl e \<Rightarrow> Inl e | Inr u \<Rightarrow>
     (case bool_field c ''appointment_needed'' of Inl e \<Rightarrow> Inl e | Inr a \<Rightarrow>
     (case bool_field c ''follow_up_required'' of Inl e \<Rightarrow> Inl e | Inr f \<Rightarrow>
     (case optional_str_field c ''department_referral'' of Inl e \<Rightarrow> Inl e | Inr d \<Rightarrow>
        Inr \<lparr>response = r, urgency_level = u, appointment_needed = a,
             follow_up_required = f, department_referral = d\<rparr>)))))"

text \<open>A candidate reply, well typed in every field, whose urgency is none of the three
  labels of the description.\<close>

definition reply_unlisted_urgency :: "string \<rightharpoonup> json" where
  "reply_unlisted_urgency = map_of
     [(''response'', JStr ''Please call the front desk.''),
      (''urgency_level'', JStr ''critical''),
      (''appointment_needed'', JBool True),
      (''follow_up_required'', JBool False),
      (''department_referral'', JNull)]"

text \<open>A candidate reply that gives its two flags as a number and as a word, a referral,
  and a key the class does not declare.\<close>

definition reply_lax_flags :: "string \<rightharpoonup> json" where
  "reply_lax_flags = map_of
     [(''response'', JStr ''Your visit is booked.''),
      (''urgency_level'', JStr ''soon''),
      (''appointment_needed'', JInt 1),
      (''follow_up_required'', JStr ''No''),
      (''department_referral'', JStr ''Cardiology''),
      (''confidence'', JFloat (9 / 10))]"

section \<open>Properties\<close>

subsection \<open>The status lookup\<close>

lemma tbl_comprehensive_module:
  "tbl_comprehensive_appointment_db module_tables = comprehensive_appointment_db"
  by (simp add: module_tables_def)

lemma get_appointment_status_entry:
  assumes "tbl_comprehensive_appointment_db T a = Some info"
    and "dict_get info ''date'' = Some d" and "dict_get info ''time'' = Some t"
    and "dict_get info ''doctor'' = Some doc" and "dict_get info ''department'' = Some dep"
    and "dict_get info ''status'' = Some st"
  shows "get_appointment_status T a = Inr (status_text a d t doc dep st)"
  using assms by (simp add: get_appointment_status_def getitem_def dict_get_def)

lemma get_appointment_status_unknown:
  "tbl_comprehensive_appointment_db T a = None \<Longrightarrow>
     get_appointment_status T a = Inl (ModelRetry (status_hint a))"
  by (simp add: get_appointment_status_def)

lemma comprehensive_complete:
  assumes "comprehensive_appointment_db a = Some info"
  shows "\<exists>d t doc dep st. dict_get info ''date'' = Some d \<and> dict_get info ''time'' = Some t
     \<and> dict_get info ''doctor'' = Some doc \<and> dict_get info ''department'' = Some dep
     \<and> dict_get info ''status'' = Some st"
  using assms by (auto simp add: comprehensive_appointment_db_def dict_get_def split: if_splits)

lemma status_text_contains:
  "sublist d (status_text a d t doc dep st)"
  "sublist t (status_text a d t doc dep st)"
  "sublist doc (status_text a d t doc dep st)"
  "sublist dep (status_text a d t doc dep st)"
proof -
  have "status_text a d t doc dep st = (''Appointment '' @ a @ '': '') @ d @ ('' at '' @ t @ '' with '' @ doc @ '' ('' @ dep
            @ '') - Status: '' @ st)" by (simp add: status_text_def)
  then show "sublist d (status_text a d t doc dep st)" by (simp only: sublist_appendI)
  have "status_text a d t doc dep st = (''Appointment '' @ a @ '': '' @ d @ '' at '') @ t @ ('' with '' @ doc @ '' ('' @ dep
            @ '') - Status: '' @ st)" by (simp add: status_text_def)
  then show "sublist t (status_text a d t doc dep st)" by (simp only: sublist_appendI)
  have "status_text a d t doc dep st = (''Appointment '' @ a @ '': '' @ d @ '' at '' @ t @ '' with '') @ doc @ ('' ('' @ dep
            @ '') - Status: '' @ st)" by (simp add: status_text_def)
  then show "sublist doc (status_text a d t doc dep st)" by (simp only: sublist_appendI)
  have "status_text a d t doc dep st = (''Appointment '' @ a @ '': '' @ d @ '' at '' @ t @ '' with '' @ doc @ '' ('') @ dep
            @ ('') - Status: '' @ st)" by (simp add: status_text_def)
  then show "sublist dep (status_text a d t doc dep st)" by (simp only: sublist_appendI)
qed

lemma status_known_contains:
  assumes e: "comprehensive_appointment_db a = Some info"
    and f: "dict_get info ''date'' = Some d" "dict_get info ''time'' = Some t"
         "dict_get info ''doctor'' = Some doc" "dict_get info ''department'' = Some dep"
  shows "\<exists>s. get_appointment_status module_tables a = Inr s
            \<and> sublist d s \<and> sublist t s \<and> sublist doc s \<and> sublist dep s"
proof -
  from comprehensive_complete [OF e] obtain st where st: "dict_get info ''status'' = Some st"
    by (elim exE conjE)
  have te: "tbl_comprehensive_appointment_db module_tables a = Some info"
    by (simp only: tbl_comprehensive_module e)
  have r: "get_appointment_status module_tables a = Inr (status_text a d t doc dep st)"
    by (rule get_appointment_status_entry [OF te f st])
  show ?thesis
    by (rule exI [of _ "status_text a d t doc dep st"]) (intro conjI r status_text_contains)
qed

lemma status_iff:
  "(\<exists>s. get_appointment_status module_tables a = Inr s) \<longleftrightarrow> a \<in> dom comprehensive_appointment_db"
proof (cases "comprehensive_appointment_db a")
  case None
  then have "get_appointment_status module_tables a = Inl (ModelRetry (status_hint a))"
    by (simp only: get_appointment_status_unknown tbl_comprehensive_module)
  with None show ?thesis by (simp add: domIff)
next
  case (Some info)
  from comprehensive_complete [OF Some] obtain d t doc dep st where
    f: "dict_get info ''date'' = Some d" "dict_get info ''time'' = Some t"
    "dict_get info ''doctor'' = Some doc" "dict_get info ''department'' = Some dep"
    "dict_get info ''status'' = Some st" by blast
  have "get_appointment_status module_tables a = Inr (status_text a d t doc dep st)"
    by (rule get_appointment_status_entry [where info = info]) (simp_all only: tbl_comprehensive_module Some f)
  with Some show ?thesis by (simp add: domIff)
qed

lemma status_unknown_module:
  assumes "a \<notin> dom comprehensive_appointment_db"
  shows "get_appointment_status module_tables a = Inl (ModelRetry (status_hint a))"
proof -
  from assms have "comprehensive_appointment_db a = None" by (simp add: domIff)
  then show ?thesis by (simp only: get_appointment_status_unknown tbl_comprehensive_module)
qed

lemma status_hint_text:
  "status_hint a = ''No appointment found for ID '' @ a
     @ ''. Please ensure the appointment ID is in the correct format (APT-XXXXX) and verify with the patient. Self-correct if needed and try again.''"
  by (simp add: status_hint_def)

lemma status_unknown_text:
  assumes "a \<notin> dom comprehensive_appointment_db"
  shows "get_appointment_status module_tables a = Inl (ModelRetry (''No appointment found for ID '' @ a
     @ ''. Please ensure the appointment ID is in the correct format (APT-XXXXX) and verify with the patient. Self-correct if needed and try again.''))"
proof -
  have "get_appointment_status module_tables a = Inl (ModelRetry (status_hint a))"
    using assms by (rule status_unknown_module)
  then show ?thesis by (simp only: status_hint_text)
qed

text \<open>
  C2. \<^verbatim>\<open>get_appointment_status\<close> returns a value exactly for the keys of the static table.
  For a key of the table, the returned string contains the date, the time, the doctor and
  the department of its entry; for any other id the function returns nothing and raises
  \<^verbatim>\<open>ModelRetry\<close> with the corrective hint: that no appointment was found for this id, and
  that the id should have the format \<^verbatim>\<open>APT-XXXXX\<close>.
\<close>

theorem get_appointment_status_lookup:
  "((\<exists>s. get_appointment_status module_tables a = Inr s) \<longleftrightarrow> a \<in> dom comprehensive_appointment_db)
   \<and> (\<forall>info d t doc dep.
         comprehensive_appointment_db a = Some info \<and> dict_get info ''date'' = Some d
           \<and> dict_get info ''time'' = Some t \<and> dict_get info ''doctor'' = Some doc
           \<and> dict_get info ''department'' = Some dep \<longrightarrow>
         (\<exists>s. get_appointment_status module_tables a = Inr s
            \<and> sublist d s \<and> sublist t s \<and> sublist doc s \<and> sublist dep s))
   \<and> (a \<notin> dom comprehensive_appointment_db \<longrightarrow>
         get_appointment_status module_tables a
           = Inl (ModelRetry (''No appointment found for ID '' @ a
               @ ''. Please ensure the appointment ID is in the correct format (APT-XXXXX) and verify with the patient. Self-correct if needed and try again.'')))"
proof (intro conjI allI impI)
  show "(\<exists>s. get_appointment_status module_tables a = Inr s) \<longleftrightarrow> a \<in> dom comprehensive_appointment_db"
    by (rule status_iff)
  show "get_appointment_status module_tables a
           = Inl (ModelRetry (''No appointment found for ID '' @ a
               @ ''. Please ensure the appointment ID is in the correct format (APT-XXXXX) and verify with the patient. Self-correct if needed and try again.''))"
    if "a \<notin> dom comprehensive_appointment_db"
    using that by (rule status_unknown_text)
  show "\<exists>s. get_appointment_status module_tables a = Inr s
            \<and> sublist d s \<and> sublist t s \<and> sublist doc s \<and> sublist dep s"
    if "comprehensive_appointment_db a = Some info \<and> dict_get info ''date'' = Some d
           \<and> dict_get info ''time'' = Some t \<and> dict_get info ''doctor'' = Some doc
           \<and> dict_get info ''department'' = Some dep"
    for info d t doc dep
    using that by (elim conjE) (rule status_known_contains)
qed

theorem get_appointment_status_lookup_witness:
  "(\<exists>s. get_appointment_status module_tables ''APT-12345'' = Inr s
      \<and> sublist ''2024-12-15'' s \<and> sublist ''10:00 AM'' s \<and> sublist ''Dr. Smith'' s
      \<and> sublist ''Cardiology'' s)
   \<and> get_appointment_status module_tables ''12345'' = Inl (ModelRetry
        ''No appointment found for ID 12345. Please ensure the appointment ID is in the correct format (APT-XXXXX) and verify with the patient. Self-correct if needed and try again.'')
   \<and> get_appointment_status module_tables ''APT-00000'' = Inl (ModelRetry
        ''No appointment found for ID APT-00000. Please ensure the appointment ID is in the correct format (APT-XXXXX) and verify with the patient. Self-correct if needed and try again.'')"
proof -
  let ?info = "[(''date'', ''2024-12-15''), (''time'', ''10:00 AM''), (''doctor'', ''Dr. Smith''),
          (''department'', ''Cardiology''), (''status'', ''scheduled''),
          (''patient_id'', ''P001'')]"
  have e: "comprehensive_appointment_db ''APT-12345'' = Some ?info
      \<and> dict_get ?info ''date'' = Some ''2024-12-15''
      \<and> dict_get ?info ''time'' = Some ''10:00 AM''
      \<and> dict_get ?info ''doctor'' = Some ''Dr. Smith''
      \<and> dict_get ?info ''department'' = Some ''Cardiology''"
    by (simp add: comprehensive_appointment_db_def dict_get_def)
  have u1: "''12345'' \<notin> dom comprehensive_appointment_db"
    and u2: "''APT-00000'' \<notin> dom comprehensive_appointment_db"
    by (simp_all add: comprehensive_appointment_db_def)
  note k = get_appointment_status_lookup [of "''APT-12345''", THEN conjunct2, THEN conjunct1,
      rule_format, OF e]
  have n1: "get_appointment_status module_tables ''12345'' = Inl (ModelRetry
        ''No appointment found for ID 12345. Please ensure the appointment ID is in the correct format (APT-XXXXX) and verify with the patient. Self-correct if needed and try again.'')"
    using get_appointment_status_lookup [of "''12345''", THEN conjunct2, THEN conjunct2,
      rule_format, OF u1] by simp
  have n2: "get_appointment_status module_tables ''APT-00000'' = Inl (ModelRetry
        ''No appointment found for ID APT-00000. Please ensure the appointment ID is in the correct format (APT-XXXXX) and verify with the patient. Self-correct if needed and try again.'')"
    using get_appointment_status_lookup [of "''APT-00000''", THEN conjunct2, THEN conjunct2,
      rule_format, OF u2] by simp
  from k n1 n2 show ?thesis by (intro conjI)
qed

subsection \<open>The ownership check\<close>

lemma validate_other_owner:
  "tbl_comprehensive_appointment_db T a = Some info \<Longrightarrow> dict_get info ''patient_id'' \<noteq> Some p \<Longrightarrow>
     validate_patient_appointment T a p = Inl (ModelRetry (confidentiality_hint a p))"
  by (simp add: validate_patient_appointment_def)

lemma confidentiality_hint_cites:
  "sublist ''HIPAA violation'' (confidentiality_hint a p)"
proof -
  have "confidentiality_hint a p =
      (''Appointment '' @ a @ '' does not belong to patient '' @ p @ ''. This is a '')
        @ ''HIPAA violation''
        @ ''. Please verify patient identity before providing appointment information.''"
    by (simp add: confidentiality_hint_def)
  then show ?thesis by (simp only: sublist_appendI)
qed

lemma entry_67890:
  "tbl_comprehensive_appointment_db module_tables ''APT-67890'' =
     Some [(''date'', ''2024-12-20''), (''time'', ''2:30 PM''), (''doctor'', ''Dr. Johnson''),
          (''department'', ''Dermatology''), (''status'', ''confirmed''),
          (''patient_id'', ''P002'')]"
  by (simp add: module_tables_def comprehensive_appointment_db_def)

lemma entry_12345:
  "tbl_comprehensive_appointment_db module_tables ''APT-12345'' =
     Some [(''date'', ''2024-12-15''), (''time'', ''10:00 AM''), (''doctor'', ''Dr. Smith''),
          (''department'', ''Cardiology''), (''status'', ''scheduled''),
          (''patient_id'', ''P001'')]"
  by (simp add: module_tables_def comprehensive_appointment_db_def)

text \<open>
  C3. For every appointment id of the table whose entry names another owner than the
  patient id supplied, \<^verbatim>\<open>validate_patient_appointment\<close> raises \<^verbatim>\<open>ModelRetry\<close> and returns
  nothing; the message cites a HIPAA violation. So it does for patient \<^verbatim>\<open>P001\<close> and the
  appointment \<^verbatim>\<open>APT-67890\<close>, which the module's table gives to \<^verbatim>\<open>P002\<close>.
\<close>

theorem validate_rejects_other_patient:
  "(\<forall>info. tbl_comprehensive_appointment_db T a = Some info \<and> dict_get info ''patient_id'' \<noteq> Some p \<longrightarrow>
      validate_patient_appointment T a p = Inl (ModelRetry (confidentiality_hint a p)))
   \<and> sublist ''HIPAA violation'' (confidentiality_hint a p)
   \<and> validate_patient_appointment module_tables ''APT-67890'' ''P001''
        = Inl (ModelRetry (confidentiality_hint ''APT-67890'' ''P001''))"
proof (intro conjI allI impI)
  show "validate_patient_appointment T a p = Inl (ModelRetry (confidentiality_hint a p))"
    if "tbl_comprehensive_appointment_db T a = Some info \<and> dict_get info ''patient_id'' \<noteq> Some p"
    for info
    using that by (elim conjE) (rule validate_other_owner)
  show "sublist ''HIPAA violation'' (confidentiality_hint a p)"
    by (rule confidentiality_hint_cites)
  show "validate_patient_appointment module_tables ''APT-67890'' ''P001''
        = Inl (ModelRetry (confidentiality_hint ''APT-67890'' ''P001''))"
    by (rule validate_other_owner [OF entry_67890]) (simp add: dict_get_def)
qed

theorem validate_rejects_other_patient_witness:
  "validate_patient_appointment module_tables ''APT-12345'' ''P002''
     = Inl (ModelRetry (confidentiality_hint ''APT-12345'' ''P002''))
   \<and> sublist ''HIPAA violation'' (confidentiality_hint ''APT-12345'' ''P002'')
   \<and> validate_patient_appointment module_tables ''APT-67890'' ''P001''
        = Inl (ModelRetry (confidentiality_hint ''APT-67890'' ''P001''))"
proof -
  let ?info = "[(''date'', ''2024-12-15''), (''time'', ''10:00 AM''), (''doctor'', ''Dr. Smith''),
          (''department'', ''Cardiology''), (''status'', ''scheduled''),
          (''patient_id'', ''P001'')]"
  have o: "dict_get ?info ''patient_id'' \<noteq> Some ''P002''"
    by (simp add: dict_get_def)
  note t = validate_rejects_other_patient [of module_tables "''APT-12345''" "''P002''"]
  from t [THEN conjunct1, rule_format, OF conjI, OF entry_12345 o] t [THEN conjunct2]
  show ?thesis by (intro conjI) (erule conjunct1 conjunct2 | assumption)+
qed

lemma validate_unknown:
  "tbl_comprehensive_appointment_db T a = None \<Longrightarrow>
     validate_patient_appointment T a p = Inl (ModelRetry (not_found_hint a))"
  by (simp add: validate_patient_appointment_def)

lemma validate_owner:
  "tbl_comprehensive_appointment_db T a = Some info \<Longrightarrow> dict_get info ''patient_id'' = Some p \<Longrightarrow>
     validate_patient_appointment T a p = Inr (''Appointment '' @ a @ '' verified for patient '' @ p)"
  by (simp add: validate_patient_appointment_def)

lemma not_found_hint_text:
  "not_found_hint a = ''Appointment '' @ a @ '' not found. Please verify the appointment ID format.''"
  by (simp add: not_found_hint_def)

lemma not_found_is_not_confidentiality:
  "''Appointment '' @ a @ '' not found. Please verify the appointment ID format.''
     \<noteq> ''Appointment '' @ a @ '' does not belong to patient '' @ q
     @ ''. This is a HIPAA violation. Please verify patient identity before providing appointment information.''"
  by simp

lemma validate_unknown_text:
  assumes "tbl_comprehensive_appointment_db T a = None"
  shows "validate_patient_appointment T a p
     = Inl (ModelRetry (''Appointment '' @ a @ '' not found. Please verify the appointment ID format.''))"
proof -
  have "validate_patient_appointment T a p = Inl (ModelRetry (not_found_hint a))"
    using assms by (rule validate_unknown)
  then show ?thesis by (simp only: not_found_hint_text)
qed

text \<open>
  C10. \<^verbatim>\<open>validate_patient_appointment\<close> looks the id up before it compares owners: for an id
  that is not in the table it raises \<^verbatim>\<open>ModelRetry\<close> with the "not found" message whatever
  the patient id is, and with no patient's confidentiality message; it returns a string
  exactly when the id is in the table and the entry's \<^verbatim>\<open>patient_id\<close> is the patient id
  supplied.
\<close>

theorem validate_existence_before_ownership:
  "(tbl_comprehensive_appointment_db T a = None \<longrightarrow>
      validate_patient_appointment T a p
        = Inl (ModelRetry (''Appointment '' @ a @ '' not found. Please verify the appointment ID format.''))
      \<and> (\<forall>q. validate_patient_appointment T a p
            \<noteq> Inl (ModelRetry (''Appointment '' @ a @ '' does not belong to patient '' @ q
                  @ ''. This is a HIPAA violation. Please verify patient identity before providing appointment information.''))))
   \<and> ((\<exists>s. validate_patient_appointment T a p = Inr s) \<longleftrightarrow>
        (\<exists>info. tbl_comprehensive_appointment_db T a = Some info \<and> dict_get info ''patient_id'' = Some p))"
proof (intro conjI impI allI)
  show "validate_patient_appointment T a p
        = Inl (ModelRetry (''Appointment '' @ a @ '' not found. Please verify the appointment ID format.''))"
    if "tbl_comprehensive_appointment_db T a = None"
    using that by (rule validate_unknown_text)
  show "validate_patient_appointment T a p
            \<noteq> Inl (ModelRetry (''Appointment '' @ a @ '' does not belong to patient '' @ q
                  @ ''. This is a HIPAA violation. Please verify patient identity before providing appointment information.''))"
    if "tbl_comprehensive_appointment_db T a = None" for q
  proof -
    note validate_unknown_text [OF that, of p]
    moreover note not_found_is_not_confidentiality [of a q]
    ultimately show ?thesis by (simp only: sum.inject error.inject simp_thms)
  qed
  show "(\<exists>s. validate_patient_appointment T a p = Inr s) \<longleftrightarrow>
        (\<exists>info. tbl_comprehensive_appointment_db T a = Some info \<and> dict_get info ''patient_id'' = Some p)"
  proof (cases "tbl_comprehensive_appointment_db T a")
    case None
    then show ?thesis using validate_unknown [OF None, of p] by simp
  next
    case (Some info)
    show ?thesis
    proof (cases "dict_get info ''patient_id'' = Some p")
      case True
      with Some validate_owner [OF Some True] show ?thesis by simp
    next
      case False
      with Some validate_other_owner [OF Some False] show ?thesis by simp
    qed
  qed
qed

theorem validate_existence_before_ownership_witness:
  "validate_patient_appointment module_tables ''APT-00000'' ''P002''
     = Inl (ModelRetry ''Appointment APT-00000 not found. Please verify the appointment ID format.'')
   \<and> validate_patient_appointment module_tables ''APT-00000'' ''P002''
        \<noteq> Inl (ModelRetry ''Appointment APT-00000 does not belong to patient P002. This is a HIPAA violation. Please verify patient identity before providing appointment information.'')
   \<and> (\<exists>s. validate_patient_appointment module_tables ''APT-12345'' ''P001'' = Inr s)"
proof -
  let ?info = "[(''date'', ''2024-12-15''), (''time'', ''10:00 AM''), (''doctor'', ''Dr. Smith''),
          (''department'', ''Cardiology''), (''status'', ''scheduled''),
          (''patient_id'', ''P001'')]"
  have n: "tbl_comprehensive_appointment_db module_tables ''APT-00000'' = None"
    by (simp add: module_tables_def comprehensive_appointment_db_def)
  have o: "dict_get ?info ''patient_id'' = Some ''P001''"
    by (simp add: dict_get_def)
  note u = validate_existence_before_ownership [of module_tables "''APT-00000''" "''P002''",
      THEN conjunct1, rule_format, OF n]
  have u1: "validate_patient_appointment module_tables ''APT-00000'' ''P002''
     = Inl (ModelRetry ''Appointment APT-00000 not found. Please verify the appointment ID format.'')"
    using u [THEN conjunct1] by simp
  have u2: "validate_patient_appointment module_tables ''APT-00000'' ''P002''
        \<noteq> Inl (ModelRetry ''Appointment APT-00000 does not belong to patient P002. This is a HIPAA violation. Please verify patient identity before providing appointment information.'')"
    using u [THEN conjunct2, rule_format, of "''P002''"] by simp
  note k = validate_existence_before_ownership [of module_tables "''APT-12345''" "''P001''",
      THEN conjunct2, THEN iffD2, OF exI, OF conjI, OF entry_12345 o]
  from u1 u2 k show ?thesis by (intro conjI)
qed

subsection \<open>Doctor availability\<close>

lemma check_unregistered:
  "tbl_doctor_availability T n = None \<Longrightarrow>
     check_doctor_availability T n = ''No availability information found for '' @ n"
  by (simp add: check_doctor_availability_def)

lemma check_registered:
  "tbl_doctor_availability T n = Some ds \<Longrightarrow> ds \<noteq> [] \<Longrightarrow>
     check_doctor_availability T n = n @ '' is available on: '' @ join '', '' ds"
  by (simp add: check_doctor_availability_def)

lemma smith_days:
  "tbl_doctor_availability module_tables ''Dr. Smith'' = Some [''Monday'', ''Wednesday'', ''Friday'']"
  by (simp add: module_tables_def doctor_availability_def)

lemma join_smith: "join '', '' [''Monday'', ''Wednesday'', ''Friday''] = ''Monday, Wednesday, Friday''"
  by simp

text \<open>
  C5. \<^verbatim>\<open>check_doctor_availability\<close> has no failing branch: called as a tool it always
  returns a string. For \<^verbatim>\<open>Dr. Smith\<close> the string lists Monday, Wednesday, Friday, the days
  the table gives; for a name that is not a key of the table it is the "No availability
  information found" sentence.
\<close>

theorem check_doctor_availability_total:
  "check_doctor_availability module_tables ''Dr. Smith''
     = ''Dr. Smith is available on: Monday, Wednesday, Friday''
   \<and> (n \<notin> dom doctor_availability \<longrightarrow>
        check_doctor_availability module_tables n = ''No availability information found for '' @ n)
   \<and> fst (invoke md \<lparr>globals = T, run_deps = p\<rparr> (CheckDoctorAvailability n))
        = Inr (check_doctor_availability T n)"
proof (intro conjI impI)
  have "check_doctor_availability module_tables ''Dr. Smith''
      = ''Dr. Smith'' @ '' is available on: '' @ join '', '' [''Monday'', ''Wednesday'', ''Friday'']"
    by (rule check_registered [OF smith_days]) simp
  then show "check_doctor_availability module_tables ''Dr. Smith''
     = ''Dr. Smith is available on: Monday, Wednesday, Friday''"
    by (simp only: join_smith) simp
  show "check_doctor_availability module_tables n = ''No availability information found for '' @ n"
    if "n \<notin> dom doctor_availability"
  proof -
    from that have "tbl_doctor_availability module_tables n = None"
      by (simp add: module_tables_def domIff)
    then show ?thesis by (rule check_unregistered)
  qed
  show "fst (invoke md \<lparr>globals = T, run_deps = p\<rparr> (CheckDoctorAvailability n))
        = Inr (check_doctor_availability T n)"
    by simp
qed

theorem check_doctor_availability_total_witness:
  "check_doctor_availability module_tables ''Dr. House''
     = ''No availability information found for Dr. House''"
proof -
  have u: "''Dr. House'' \<notin> dom doctor_availability"
    by (simp add: doctor_availability_def)
  from check_doctor_availability_total [of "''Dr. House''", THEN conjunct2, THEN conjunct1, rule_format, OF u]
  show ?thesis by simp
qed

subsection \<open>The appointment details of the run's patient\<close>

lemma details_first:
  "appointments (deps ctx) = Some (a # rest) \<Longrightarrow> tbl_appointment_db T (appointment_id a) = Some e \<Longrightarrow>
     get_appointment_details T ctx = details_text (appointment_id a) e"
  by (simp add: get_appointment_details_def)

lemma details_first_missing:
  "appointments (deps ctx) = Some (a # rest) \<Longrightarrow> tbl_appointment_db T (appointment_id a) = None \<Longrightarrow>
     get_appointment_details T ctx = details_text (appointment_id a) []"
  by (simp add: get_appointment_details_def)

lemma details_none:
  "appointments (deps ctx) = None \<Longrightarrow> get_appointment_details T ctx = ''No appointments found''"
  by (simp add: get_appointment_details_def)

lemma details_empty:
  "appointments (deps ctx) = Some [] \<Longrightarrow> get_appointment_details T ctx = ''No appointments found''"
  by (simp add: get_appointment_details_def)

lemma details_text_full:
  "dict_get e ''date'' = Some d \<Longrightarrow> dict_get e ''time'' = Some t \<Longrightarrow> dict_get e ''doctor'' = Some doc \<Longrightarrow>
   dict_get e ''department'' = Some dep \<Longrightarrow>
     details_text i e = ''Appointment '' @ i @ '': '' @ d @ '' at '' @ t @ '' with '' @ doc @ '' in '' @ dep"
  by (simp add: details_text_def fmt_def)

lemma details_text_empty:
  "details_text i [] = ''Appointment '' @ i @ '': None at None with None in None''"
  by (simp add: details_text_def fmt_def dict_get_def)

lemma entry_A001:
  "tbl_appointment_db module_tables ''A001'' =
     Some [(''date'', ''2024-12-15''), (''time'', ''10:00 AM''), (''doctor'', ''Dr. Smith''),
          (''department'', ''Cardiology''), (''status'', ''scheduled'')]"
  by (simp add: module_tables_def appointment_db_def)

text \<open>
  C8. For every patient record whose appointment list is there and not empty,
  \<^verbatim>\<open>get_appointment_details\<close> returns the formatted line of the first appointment of the
  list: its id, then the date, time, doctor and department that \<^verbatim>\<open>appointment_db\<close> holds
  under that id. The other appointments of the list play no part.
\<close>

theorem get_appointment_details_first:
  "(appointments (deps ctx) = Some (a # rest) \<longrightarrow>
      get_appointment_details T ctx
        = details_text (appointment_id a)
            (case tbl_appointment_db T (appointment_id a) of None \<Rightarrow> [] | Some e \<Rightarrow> e))
   \<and> (appointments (deps ctx) = Some (a # rest) \<and> tbl_appointment_db T (appointment_id a) = Some e
        \<and> dict_get e ''date'' = Some d \<and> dict_get e ''time'' = Some t
        \<and> dict_get e ''doctor'' = Some doc \<and> dict_get e ''department'' = Some dep \<longrightarrow>
      get_appointment_details T ctx
        = ''Appointment '' @ appointment_id a @ '': '' @ d @ '' at '' @ t @ '' with '' @ doc
            @ '' in '' @ dep)"
proof (intro conjI impI)
  show "get_appointment_details T ctx
        = details_text (appointment_id a)
            (case tbl_appointment_db T (appointment_id a) of None \<Rightarrow> [] | Some e \<Rightarrow> e)"
    if "appointments (deps ctx) = Some (a # rest)"
    using that by (simp add: get_appointment_details_def)
  show "get_appointment_details T ctx
        = ''Appointment '' @ appointment_id a @ '': '' @ d @ '' at '' @ t @ '' with '' @ doc
            @ '' in '' @ dep"
    if "appointments (deps ctx) = Some (a # rest) \<and> tbl_appointment_db T (appointment_id a) = Some e
        \<and> dict_get e ''date'' = Some d \<and> dict_get e ''time'' = Some t
        \<and> dict_get e ''doctor'' = Some doc \<and> dict_get e ''department'' = Some dep"
  proof -
    from that have h: "appointments (deps ctx) = Some (a # rest)"
      "tbl_appointment_db T (appointment_id a) = Some e"
      and f: "dict_get e ''date'' = Some d" "dict_get e ''time'' = Some t"
        "dict_get e ''doctor'' = Some doc" "dict_get e ''department'' = Some dep"
      by simp_all
    have "get_appointment_details T ctx = details_text (appointment_id a) e"
      by (rule details_first [OF h])
    also have "\<dots> = ''Appointment '' @ appointment_id a @ '': '' @ d @ '' at '' @ t @ '' with '' @ doc
            @ '' in '' @ dep"
      by (rule details_text_full [OF f])
    finally show ?thesis .
  qed
qed

theorem get_appointment_details_first_witness:
  "get_appointment_details module_tables \<lparr>deps = patient\<rparr>
     = ''Appointment A001: 2024-12-15 at 10:00 AM with Dr. Smith in Cardiology''"
proof -
  let ?a = "\<lparr>appointment_id = ''A001'', date = \<lparr>year = 2024, month = 12, day = 15\<rparr>,
          time = ''10:00 AM'', doctor_name = ''Dr. Smith'', department = ''Cardiology'',
          status = ''scheduled''\<rparr>"
  let ?e = "[(''date'', ''2024-12-15''), (''time'', ''10:00 AM''), (''doctor'', ''Dr. Smith''),
          (''department'', ''Cardiology''), (''status'', ''scheduled'')]"
  have h: "appointments (deps \<lparr>deps = patient\<rparr>) = Some (?a # [])
      \<and> tbl_appointment_db module_tables (appointment_id ?a) = Some ?e
      \<and> dict_get ?e ''date'' = Some ''2024-12-15'' \<and> dict_get ?e ''time'' = Some ''10:00 AM''
      \<and> dict_get ?e ''doctor'' = Some ''Dr. Smith'' \<and> dict_get ?e ''department'' = Some ''Cardiology''"
    by (simp add: patient_def entry_A001 dict_get_def)
  from get_appointment_details_first [THEN conjunct2, rule_format, OF h] show ?thesis by simp
qed

text \<open>
  C9. \<^verbatim>\<open>get_appointment_details\<close> has no failing branch: called as a tool it always returns
  a string. Without appointments (\<^verbatim>\<open>None\<close> or the empty list) the string is
  \<^verbatim>\<open>No appointments found\<close>; when the first appointment's id is not a key of the table, the
  line is still produced, with \<^verbatim>\<open>None\<close> in the place of date, time, doctor and department.
\<close>

theorem get_appointment_details_total:
  "(appointments (deps ctx) = None \<longrightarrow> get_appointment_details T ctx = ''No appointments found'')
   \<and> (appointments (deps ctx) = Some [] \<longrightarrow> get_appointment_details T ctx = ''No appointments found'')
   \<and> (appointments (deps ctx) = Some (a # rest) \<and> tbl_appointment_db T (appointment_id a) = None \<longrightarrow>
        get_appointment_details T ctx
          = ''Appointment '' @ appointment_id a @ '': None at None with None in None'')
   \<and> fst (invoke md \<lparr>globals = T, run_deps = p\<rparr> GetAppointmentDetails)
        = Inr (get_appointment_details T \<lparr>deps = p\<rparr>)"
proof (intro conjI impI)
  show "get_appointment_details T ctx = ''No appointments found''" if "appointments (deps ctx) = None"
    using that by (rule details_none)
  show "get_appointment_details T ctx = ''No appointments found''" if "appointments (deps ctx) = Some []"
    using that by (rule details_empty)
  show "get_appointment_details T ctx
          = ''Appointment '' @ appointment_id a @ '': None at None with None in None''"
    if "appointments (deps ctx) = Some (a # rest) \<and> tbl_appointment_db T (appointment_id a) = None"
  proof -
    from that have "get_appointment_details T ctx = details_text (appointment_id a) []"
      by (elim conjE) (rule details_first_missing)
    then show ?thesis by (simp only: details_text_empty)
  qed
  show "fst (invoke md \<lparr>globals = T, run_deps = p\<rparr> GetAppointmentDetails)
        = Inr (get_appointment_details T \<lparr>deps = p\<rparr>)"
    by simp
qed

theorem get_appointment_details_total_witness:
  "get_appointment_details module_tables \<lparr>deps = patient_validation\<rparr> = ''No appointments found''
   \<and> get_appointment_details module_tables \<lparr>deps = patient\<lparr>appointments := Some []\<rparr>\<rparr>
        = ''No appointments found''
   \<and> get_appointment_details module_tables
        \<lparr>deps = patient\<lparr>appointments := Some
           [\<lparr>appointment_id = ''A999'', date = \<lparr>year = 2025, month = 1, day = 2\<rparr>,
             time = ''9:00 AM'', doctor_name = ''Dr. Williams'', department = ''Neurology'',
             status = ''scheduled''\<rparr>]\<rparr>\<rparr>
        = ''Appointment A999: None at None with None in None''"
proof -
  let ?a = "\<lparr>appointment_id = ''A999'', date = \<lparr>year = 2025, month = 1, day = 2\<rparr>,
             time = ''9:00 AM'', doctor_name = ''Dr. Williams'', department = ''Neurology'',
             status = ''scheduled''\<rparr>"
  have n: "appointments (deps \<lparr>deps = patient_validation\<rparr>) = None"
    by (simp add: patient_validation_def)
  have e: "appointments (deps \<lparr>deps = patient\<lparr>appointments := Some []\<rparr>\<rparr>) = Some []"
    by simp
  have m: "appointments (deps \<lparr>deps = patient\<lparr>appointments := Some [?a]\<rparr>\<rparr>) = Some (?a # [])
      \<and> tbl_appointment_db module_tables (appointment_id ?a) = None"
    by (simp add: module_tables_def appointment_db_def)
  note t1 = get_appointment_details_total [THEN conjunct1, rule_format, OF n]
  note t2 = get_appointment_details_total [THEN conjunct2, THEN conjunct1, rule_format, OF e]
  note t3 = get_appointment_details_total [THEN conjunct2, THEN conjunct2, THEN conjunct1, rule_format, OF m]
  from t1 t2 t3 show ?thesis by simp
qed

subsection \<open>Accepted structured replies\<close>

lemma str_as_bool_No: "str_as_bool ''No'' = Some False"
  by code_simp
lemma reply_lax_flags_accepted:
  "model_validate reply_lax_flags
     = Inr \<lparr>response = ''Your visit is booked.'', urgency_level = ''soon'',
            appointment_needed = True, follow_up_required = False,
            department_referral = Some ''Cardiology''\<rparr>"
  by (simp add: model_validate_def reply_lax_flags_def str_field_def bool_field_def
      optional_str_field_def str_as_bool_No)

lemma str_field_Inr: "str_field c k = Inr v \<longleftrightarrow> c k = Some (JStr v)"
  by (simp add: str_field_def split: option.splits json.splits)

lemma bool_field_dom: "bool_field c k = Inr b \<Longrightarrow> k \<in> dom c"
  by (simp add: bool_field_def domIff split: option.splits)

lemma optional_str_field_dom: "optional_str_field c k = Inr v \<Longrightarrow> k \<in> dom c"
  by (simp add: optional_str_field_def domIff split: option.splits)

lemma bool_field_upd: "k \<noteq> k' \<Longrightarrow> bool_field (c(k' \<mapsto> v)) k = bool_field c k"
  by (simp add: bool_field_def)

lemma optional_str_field_upd: "k \<noteq> k' \<Longrightarrow> optional_str_field (c(k' \<mapsto> v)) k = optional_str_field c k"
  by (simp add: optional_str_field_def)

lemma str_field_upd: "k \<noteq> k' \<Longrightarrow> str_field (c(k' \<mapsto> v)) k = str_field c k"
  by (simp add: str_field_def)

lemma model_validate_Inr:
  "model_validate c = Inr r \<longleftrightarrow>
     str_field c ''response'' = Inr (response r)
     \<and> str_field c ''urgency_level'' = Inr (urgency_level r)
     \<and> bool_field c ''appointment_needed'' = Inr (appointment_needed r)
     \<and> bool_field c ''follow_up_required'' = Inr (follow_up_required r)
     \<and> optional_str_field c ''department_referral'' = Inr (department_referral r)"
  by (cases r) (auto simp add: model_validate_def split: sum.splits)

lemma reply_unlisted_urgency_accepted:
  "model_validate reply_unlisted_urgency
     = Inr \<lparr>response = ''Please call the front desk.'', urgency_level = ''critical'',
            appointment_needed = True, follow_up_required = False, department_referral = None\<rparr>"
  by (simp add: model_validate_def reply_unlisted_urgency_def str_field_def bool_field_def
      optional_str_field_def)

text \<open>
  C4, as stated, fails: the reply below is accepted although its urgency is none of
  routine, urgent, emergency.
\<close>

theorem urgency_not_checked_counterexample:
  "model_validate reply_unlisted_urgency
     = Inr \<lparr>response = ''Please call the front desk.'', urgency_level = ''critical'',
            appointment_needed = True, follow_up_required = False, department_referral = None\<rparr>
   \<and> ''critical'' \<notin> urgency_labels"
  by (simp add: reply_unlisted_urgency_accepted urgency_labels_def)

text \<open>
  C4, amended. In every accepted reply the required fields \<^verbatim>\<open>response\<close>, \<^verbatim>\<open>urgency_level\<close>,
  \<^verbatim>\<open>appointment_needed\<close>, \<^verbatim>\<open>follow_up_required\<close> and \<^verbatim>\<open>department_referral\<close> are present,
  and \<^verbatim>\<open>urgency_level\<close> is a string. Which string it is plays no part: an accepted reply
  stays accepted when its urgency is replaced by any other string.
\<close>

theorem structured_reply_fields:
  "model_validate c = Inr r \<longrightarrow>
     c ''response'' = Some (JStr (response r))
     \<and> c ''urgency_level'' = Some (JStr (urgency_level r))
     \<and> ''appointment_needed'' \<in> dom c
     \<and> ''follow_up_required'' \<in> dom c
     \<and> ''department_referral'' \<in> dom c
     \<and> model_validate (c(''urgency_level'' \<mapsto> JStr u)) = Inr (r\<lparr>urgency_level := u\<rparr>)"
proof
  assume "model_validate c = Inr r"
  then have s: "str_field c ''response'' = Inr (response r)"
    "str_field c ''urgency_level'' = Inr (urgency_level r)"
    and b: "bool_field c ''appointment_needed'' = Inr (appointment_needed r)"
    "bool_field c ''follow_up_required'' = Inr (follow_up_required r)"
    and o: "optional_str_field c ''department_referral'' = Inr (department_referral r)"
    by (simp_all add: model_validate_Inr)
  let ?c = "c(''urgency_level'' \<mapsto> JStr u)"
  have "str_field ?c ''response'' = Inr (response r)"
    using s(1) by (simp add: str_field_upd)
  moreover have "str_field ?c ''urgency_level'' = Inr u"
    by (simp add: str_field_def)
  moreover have "bool_field ?c ''appointment_needed'' = Inr (appointment_needed r)"
    using b(1) by (simp add: bool_field_upd)
  moreover have "bool_field ?c ''follow_up_required'' = Inr (follow_up_required r)"
    using b(2) by (simp add: bool_field_upd)
  moreover have "optional_str_field ?c ''department_referral'' = Inr (department_referral r)"
    using o by (simp add: optional_str_field_upd)
  ultimately have v: "model_validate ?c = Inr (r\<lparr>urgency_level := u\<rparr>)"
    by (simp add: model_validate_Inr)
  from s have a: "c ''response'' = Some (JStr (response r))"
    "c ''urgency_level'' = Some (JStr (urgency_level r))"
    by (simp_all add: str_field_Inr)
  note d = bool_field_dom [OF b(1)] bool_field_dom [OF b(2)] optional_str_field_dom [OF o]
  from a d v show "c ''response'' = Some (JStr (response r))
     \<and> c ''urgency_level'' = Some (JStr (urgency_level r))
     \<and> ''appointment_needed'' \<in> dom c
     \<and> ''follow_up_required'' \<in> dom c
     \<and> ''department_referral'' \<in> dom c
     \<and> model_validate (c(''urgency_level'' \<mapsto> JStr u)) = Inr (r\<lparr>urgency_level := u\<rparr>)"
    by (intro conjI)
qed

theorem structured_reply_fields_witness:
  "reply_lax_flags ''response'' = Some (JStr ''Your visit is booked.'')
   \<and> reply_lax_flags ''urgency_level'' = Some (JStr ''soon'')
   \<and> ''appointment_needed'' \<in> dom reply_lax_flags
   \<and> ''follow_up_required'' \<in> dom reply_lax_flags
   \<and> ''department_referral'' \<in> dom reply_lax_flags
   \<and> model_validate (reply_lax_flags(''urgency_level'' \<mapsto> JStr ''whenever''))
        = Inr \<lparr>response = ''Your visit is booked.'', urgency_level = ''whenever'',
            appointment_needed = True, follow_up_required = False,
            department_referral = Some ''Cardiology''\<rparr>"
  using structured_reply_fields [rule_format, OF reply_lax_flags_accepted, of "''whenever''"]
  by simp

end
